theory Spec2Isabelle
  imports Complex_Main
begin

section \<open>Data model of \<open>ctparse/corpus.py\<close>\<close>

text \<open>
  Python exceptions raised by the module, as values. \<open>ValueError\<close> and \<open>Exception\<close>
  carry their message.
\<close>

datatype error =
    ValueError string
  | AssertionError
  | ZeroDivisionError
  | Exception string

text \<open>
  The scorer object handed to the candidate generator. Scorers are opaque to this module;
  the model only tells \<open>DummyScorer()\<close> from any other scorer.
\<close>

datatype scorer = DummyScorer | CustomScorer nat

text \<open>
  A candidate parse (\<open>CTParse\<close>, defined outside this module): the module reads its
  \<open>production\<close>, \<open>resolution\<close> and \<open>score\<close>. The score is a Python float; the model
  takes a rational.
\<close>

record ('p, 'r) CTParse =
  production :: "'p list"
  resolution :: 'r
  score :: rat

text \<open>\<open>TimeParseEntry\<close>: text, reference timestamp and correct parse.\<close>

record ('ts, 'r) TimeParseEntry =
  entry_text :: string
  ts :: 'ts
  gold :: 'r

text \<open>
  What the module imports and calls but does not define: the candidate generator
  \<open>ctparse_gen(text, ts, relative_match_len, timeout, max_stack_depth, scorer, latent_time)\<close>,
  whose generator output is taken as a finite list of possibly-\<open>None\<close> candidates,
  \<open>datetime.strptime(string, format)\<close>, \<open>Artifact.nb_str\<close> and \<open>str\<close> on
  production elements.
\<close>

record ('ts, 'p, 'r) env =
  ctparse_gen :: "string \<Rightarrow> 'ts \<Rightarrow> rat \<Rightarrow> rat \<Rightarrow> int \<Rightarrow> scorer \<Rightarrow> bool
                    \<Rightarrow> ('p, 'r) CTParse option list"
  strptime :: "string \<Rightarrow> string \<Rightarrow> error + 'ts"
  nb_str :: "'r \<Rightarrow> string"
  str :: "'p \<Rightarrow> string"

section \<open>\<open>make_partial_rule_dataset\<close>\<close>

text \<open>
  What a consumer of the generator \<open>make_partial_rule_dataset\<close> can observe, in order:
  the description set on the progress bar, and the rows yielded.
\<close>

datatype out = Description string | Yield "string list" bool

text \<open>\<open>"  {: <70}".format(entry.text)\<close>: two blanks, then the text padded to 70 on the right.\<close>

definition status_text :: "('ts, 'r) TimeParseEntry \<Rightarrow> string" where
  "status_text entry =
     ''  '' @ entry_text entry @ replicate (70 - length (entry_text entry)) CHR '' ''"

text \<open>
  \<open>_progress_bar\<close>: every value of \<open>it\<close> is yielded unchanged, after the description of
  the bar has been set to its status text. \<open>total\<close> only sizes the bar.
\<close>

definition progress_bar :: "'a list \<Rightarrow> nat \<Rightarrow> ('a \<Rightarrow> string) \<Rightarrow> (string option \<times> 'a) list" where
  "progress_bar it tot status = map (\<lambda>val. (Some (status val), val)) it"

text \<open>Lines 95 to 101: the rows of one candidate that is not \<open>None\<close>.\<close>

definition parse_rows :: "('p \<Rightarrow> string) \<Rightarrow> 'r \<Rightarrow> ('p, 'r) CTParse \<Rightarrow> (string list \<times> bool) list" where
  "parse_rows str_of gold_value parse =
     (let y = (resolution parse = gold_value) in
      map (\<lambda>i. (map str_of (take i (production parse)), y))
          [1 ..< length (production parse) + 1])"

text \<open>The loop over the candidates of one entry; a \<open>None\<close> candidate is skipped.\<close>

fun parses_loop :: "('p \<Rightarrow> string) \<Rightarrow> 'r \<Rightarrow> ('p, 'r) CTParse option list \<Rightarrow> (string list \<times> bool) list" where
  "parses_loop str_of gold_value [] = []"
| "parses_loop str_of gold_value (None # rest) = parses_loop str_of gold_value rest"
| "parses_loop str_of gold_value (Some parse # rest) =
     parse_rows str_of gold_value parse @ parses_loop str_of gold_value rest"

text \<open>The loop over \<open>entries_it\<close>.\<close>

fun entries_loop ::
  "('ts, 'p, 'r) env \<Rightarrow> scorer \<Rightarrow> rat \<Rightarrow> int \<Rightarrow> rat
     \<Rightarrow> (string option \<times> ('ts, 'r) TimeParseEntry) list \<Rightarrow> out list" where
  "entries_loop W sc timeout max_stack_depth relative_match_len [] = []"
| "entries_loop W sc timeout max_stack_depth relative_match_len ((d, entry) # rest) =
     (case d of None \<Rightarrow> [] | Some s \<Rightarrow> [Description s])
     @ map (\<lambda>(X, y). Yield X y)
         (parses_loop (str W) (gold entry)
            (ctparse_gen W (entry_text entry) (ts entry) relative_match_len timeout
               max_stack_depth sc False))
     @ entries_loop W sc timeout max_stack_depth relative_match_len rest"

definition make_partial_rule_dataset ::
  "('ts, 'p, 'r) env \<Rightarrow> ('ts, 'r) TimeParseEntry list \<Rightarrow> scorer \<Rightarrow> rat \<Rightarrow> int \<Rightarrow> rat \<Rightarrow> bool
     \<Rightarrow> out list" where
  "make_partial_rule_dataset W entries sc timeout max_stack_depth relative_match_len progress =
     (let entries_it =
            (if progress then progress_bar entries (length entries) status_text
             else map (\<lambda>entry. (None, entry)) entries)
      in entries_loop W sc timeout max_stack_depth relative_match_len entries_it)"

text \<open>The rows among the observations, in order.\<close>

fun rows_of :: "out list \<Rightarrow> (string list \<times> bool) list" where
  "rows_of [] = []"
| "rows_of (Description s # rest) = rows_of rest"
| "rows_of (Yield X y # rest) = (X, y) # rows_of rest"

section \<open>\<open>parse_nb_string\<close>\<close>

text \<open>\<open>s.startswith(p)\<close>.\<close>

definition startswith :: "string \<Rightarrow> string \<Rightarrow> bool" where
  "startswith s p = (take (length p) s = p)"

text \<open>The slice \<open>s[a:-1]\<close>: from index \<open>a\<close> up to, not including, the last character.\<close>

definition slice_to_last :: "nat \<Rightarrow> string \<Rightarrow> string" where
  "slice_to_last a s = take (length s - 1 - a) (drop a s)"

text \<open>
  \<open>Time.from_str\<close>, \<open>Interval.from_str\<close> and \<open>Duration.from_str\<close> are defined outside
  this module and are parameters here; each either returns a value or raises.
\<close>

definition parse_nb_string ::
  "(string \<Rightarrow> error + 'r) \<Rightarrow> (string \<Rightarrow> error + 'r) \<Rightarrow> (string \<Rightarrow> error + 'r) \<Rightarrow> string
     \<Rightarrow> error + 'r" where
  "parse_nb_string Time_from_str Interval_from_str Duration_from_str gold_parse =
     (if startswith gold_parse ''Time'' then Time_from_str (slice_to_last 7 gold_parse)
      else if startswith gold_parse ''Interval'' then Interval_from_str (slice_to_last 11 gold_parse)
      else if startswith gold_parse ''Duration'' then Duration_from_str (slice_to_last 11 gold_parse)
      else Inl (ValueError ([CHR 0x27] @ gold_parse @ [CHR 0x27] @ '' has an invalid format'')))"

section \<open>\<open>_run_corpus_one_test\<close> and \<open>run_corpus\<close>\<close>

text \<open>
  What the validator writes to the logger, in order. A message carries the values that
  are formatted into its text: the two warnings of \<open>_run_corpus_one_test\<close>, the summary
  line of \<open>run_corpus\<close> and its three shares (float quotients, taken as rationals).
  Messages written before an exception is raised stay written, so a run is a pair of
  the messages and either the exception or the returned value.
\<close>

datatype log_msg =
    WarnNeverProduced string string
  | WarnNotAlways string
  | InfoRun int nat int int int
  | InfoShareCorrect rat
  | InfoShareFirst rat
  | InfoShareBest rat

text \<open>The counters and lists that both functions accumulate.\<close>

record counters =
  Xs :: "string list list"
  ys :: "bool list"
  total_tests :: int
  pos_parses :: int
  neg_parses :: int
  pos_first_parses :: int
  pos_best_scored :: int

text \<open>The further local variables of \<open>_run_corpus_one_test\<close>.\<close>

record one_test_vars = counters +
  all_tests_pass :: bool
  one_prod_passes :: bool
  first_prod :: bool
  y_score :: "(rat \<times> bool) list"

text \<open>The further local variable of \<open>run_corpus\<close>.\<close>

record corpus_vars = counters +
  at_least_one_failed :: bool

text \<open>
  Lines 173 to 186, the body of the loop over the candidates of one sentence. The inner
  loop over \<open>range(1, len(parse.production) + 1)\<close> appends one feature list and one
  label per prefix.
\<close>

definition parse_body ::
  "('ts, 'p, 'r) env \<Rightarrow> string \<Rightarrow> one_test_vars \<Rightarrow> ('p, 'r) CTParse \<Rightarrow> one_test_vars" where
  "parse_body W target s parse =
     (let y = (nb_str W (resolution parse) = target);
          s1 = fold (\<lambda>i v. v\<lparr>Xs := Xs v @ [map (str W) (take i (production parse))],
                              ys := ys v @ [y]\<rparr>)
                 [1 ..< length (production parse) + 1] s
      in s1\<lparr>one_prod_passes := (one_prod_passes s1 \<or> y),
             pos_parses := pos_parses s1 + of_bool y,
             neg_parses := neg_parses s1 + of_bool (\<not> y),
             pos_first_parses := pos_first_parses s1 + of_bool (y \<and> first_prod s1),
             first_prod := False,
             y_score := y_score s1 @ [(score parse, y)]\<rparr>)"

text \<open>The loop over the candidates; \<open>assert parse is not None\<close> raises on a \<open>None\<close>.\<close>

fun parse_loop ::
  "('ts, 'p, 'r) env \<Rightarrow> string \<Rightarrow> one_test_vars \<Rightarrow> ('p, 'r) CTParse option list
     \<Rightarrow> error + one_test_vars" where
  "parse_loop W target s [] = Inr s"
| "parse_loop W target s (None # rest) = Inl AssertionError"
| "parse_loop W target s (Some parse # rest) = parse_loop W target (parse_body W target s parse) rest"

text \<open>
  \<open>max(xs, key=key)\<close>: the first element whose key is greatest; raises \<open>ValueError\<close> on
  an empty sequence.
\<close>

fun max_by_key :: "('a \<Rightarrow> rat) \<Rightarrow> 'a list \<Rightarrow> error + 'a" where
  "max_by_key key [] = Inl (ValueError ''max() arg is an empty sequence'')"
| "max_by_key key (x # xs) = Inr (fold (\<lambda>v best. if key best < key v then v else best) xs x)"

text \<open>
  The loop over the sentences \<open>tests\<close> of one test case, lines 158 to 193. \<open>n\<close> is
  \<open>len(tests)\<close>, the length of the whole sentence list.
\<close>

fun test_loop ::
  "('ts, 'p, 'r) env \<Rightarrow> string \<Rightarrow> 'ts \<Rightarrow> int \<Rightarrow> nat \<Rightarrow> one_test_vars \<Rightarrow> string list
     \<Rightarrow> log_msg list \<times> (error + one_test_vars)" where
  "test_loop W target t max_stack_depth n s [] = ([], Inr s)"
| "test_loop W target t max_stack_depth n s (test # rest) =
     (case parse_loop W target (s\<lparr>one_prod_passes := False, first_prod := True, y_score := []\<rparr>)
             (ctparse_gen W test t 1 0 max_stack_depth DummyScorer False) of
        Inl e \<Rightarrow> ([], Inl e)
      | Inr s2 \<Rightarrow>
          (let w = (if \<not> one_prod_passes s2 then [WarnNeverProduced target test] else []) in
           case max_by_key fst (y_score s2) of
             Inl e \<Rightarrow> (w, Inl e)
           | Inr best \<Rightarrow>
               (case test_loop W target t max_stack_depth n
                       (s2\<lparr>pos_best_scored := pos_best_scored s2 + of_bool (snd best),
                           total_tests := total_tests s2 + int n,
                           all_tests_pass := (all_tests_pass s2 \<and> one_prod_passes s2)\<rparr>)
                       rest of
                  (l, r) \<Rightarrow> (w @ l, r))))"

text \<open>The local variables as line 152 to 157 set them.\<close>

definition one_test_init :: one_test_vars where
  "one_test_init =
     \<lparr>Xs = [], ys = [], total_tests = 0, pos_parses = 0, neg_parses = 0,
      pos_first_parses = 0, pos_best_scored = 0,
      all_tests_pass = True, one_prod_passes = False, first_prod = True, y_score = []\<rparr>"

definition run_corpus_one_test ::
  "('ts, 'p, 'r) env \<Rightarrow> string \<Rightarrow> string \<Rightarrow> string list \<Rightarrow> int
     \<Rightarrow> log_msg list \<times>
        (error + string list list \<times> bool list \<times> int \<times> int \<times> int \<times> int \<times> int \<times> bool)" where
  "run_corpus_one_test W target ts_str tests max_stack_depth =
     (case strptime W ts_str ''%Y-%m-%dT%H:%M'' of
        Inl e \<Rightarrow> ([], Inl e)
      | Inr t \<Rightarrow>
          (case test_loop W target t max_stack_depth (length tests) one_test_init tests of
             (l, Inl e) \<Rightarrow> (l, Inl e)
           | (l, Inr s) \<Rightarrow>
               (l @ (if \<not> all_tests_pass s then [WarnNotAlways target] else []),
                Inr (Xs s, ys s, total_tests s, pos_parses s, neg_parses s,
                     pos_first_parses s, pos_best_scored s, \<not> all_tests_pass s))))"

text \<open>The loop of \<open>run_corpus\<close> over the corpus, lines 244 to 262.\<close>

fun corpus_loop ::
  "('ts, 'p, 'r) env \<Rightarrow> corpus_vars \<Rightarrow> (string \<times> string \<times> string list) list
     \<Rightarrow> log_msg list \<times> (error + corpus_vars)" where
  "corpus_loop W c [] = ([], Inr c)"
| "corpus_loop W c ((target, ts_str, tests) # rest) =
     (case run_corpus_one_test W target ts_str tests 0 of
        (l, Inl e) \<Rightarrow> (l, Inl e)
      | (l, Inr (Xs', ys', total_tests', pos_parses', neg_parses', pos_first_parses',
                 pos_best_scored', at_least_one_failed')) \<Rightarrow>
          (case corpus_loop W
                  (c\<lparr>Xs := Xs c @ Xs', ys := ys c @ ys',
                     total_tests := total_tests c + total_tests',
                     pos_parses := pos_parses c + pos_parses',
                     neg_parses := neg_parses c + neg_parses',
                     pos_first_parses := pos_first_parses c + pos_first_parses',
                     pos_best_scored := pos_best_scored c + pos_best_scored',
                     at_least_one_failed := (at_least_one_failed c \<or> at_least_one_failed')\<rparr>)
                  rest of
             (l', r) \<Rightarrow> (l @ l', r)))"

definition corpus_init :: corpus_vars where
  "corpus_init =
     \<lparr>Xs = [], ys = [], total_tests = 0, pos_parses = 0, neg_parses = 0,
      pos_first_parses = 0, pos_best_scored = 0, at_least_one_failed = False\<rparr>"

text \<open>Python's \<open>a / b\<close> on integers: the quotient, or \<open>ZeroDivisionError\<close>.\<close>

definition truediv :: "int \<Rightarrow> int \<Rightarrow> error + rat" where
  "truediv a b = (if b = 0 then Inl ZeroDivisionError else Inr (of_int a / of_int b))"

definition run_corpus ::
  "('ts, 'p, 'r) env \<Rightarrow> (string \<times> string \<times> string list) list
     \<Rightarrow> log_msg list \<times> (error + string list list \<times> bool list)" where
  "run_corpus W corpus =
     (case corpus_loop W corpus_init corpus of
        (l, Inl e) \<Rightarrow> (l, Inl e)
      | (l, Inr c) \<Rightarrow>
          (let l1 = l @ [InfoRun (total_tests c) (length corpus) (pos_parses c) (neg_parses c)
                           (pos_parses c + neg_parses c)] in
           case truediv (pos_parses c) (pos_parses c + neg_parses c) of
             Inl e \<Rightarrow> (l1, Inl e)
           | Inr r1 \<Rightarrow>
               (let l2 = l1 @ [InfoShareCorrect r1] in
                case truediv (pos_first_parses c) (pos_parses c + neg_parses c) of
                  Inl e \<Rightarrow> (l2, Inl e)
                | Inr r2 \<Rightarrow>
                    (let l3 = l2 @ [InfoShareFirst r2] in
                     case truediv (pos_best_scored c) (total_tests c) of
                       Inl e \<Rightarrow> (l3, Inl e)
                     | Inr r3 \<Rightarrow>
                         (let l4 = l3 @ [InfoShareBest r3] in
                          if at_least_one_failed c
                          then (l4, Inl (Exception ''ctparse corpus has errors''))
                          else (l4, Inr (Xs c, ys c)))))))"

section \<open>Notions used to state the properties\<close>

text \<open>The candidates that are not \<open>None\<close>, in the order yielded.\<close>

definition yielded :: "'a option list \<Rightarrow> 'a list" where
  "yielded cs = concat (map (\<lambda>c. case c of None \<Rightarrow> [] | Some p \<Rightarrow> [p]) cs)"

text \<open>The validator's call of the generator for one sentence.\<close>

definition cands :: "('ts, 'p, 'r) env \<Rightarrow> 'ts \<Rightarrow> int \<Rightarrow> string \<Rightarrow> ('p, 'r) CTParse option list" where
  "cands W t msd test = ctparse_gen W test t 1 0 msd DummyScorer False"

text \<open>
  The label of a candidate in the validator: its resolution's canonical text equals the
  target string.
\<close>

definition label :: "('ts, 'p, 'r) env \<Rightarrow> string \<Rightarrow> ('p, 'r) CTParse \<Rightarrow> bool" where
  "label W target parse = (nb_str W (resolution parse) = target)"

text \<open>The feature lists of one candidate: its stringified production prefixes.\<close>

definition feats :: "('ts, 'p, 'r) env \<Rightarrow> ('p, 'r) CTParse \<Rightarrow> string list list" where
  "feats W parse =
     map (\<lambda>i. map (str W) (take i (production parse))) [1 ..< length (production parse) + 1]"

text \<open>Whether the first candidate of a sentence exists and is correct.\<close>

definition first_label :: "('ts, 'p, 'r) env \<Rightarrow> string \<Rightarrow> ('p, 'r) CTParse list \<Rightarrow> bool" where
  "first_label W target ps = (case ps of [] \<Rightarrow> False | p # _ \<Rightarrow> label W target p)"

text \<open>Whether the highest-scored candidate of a sentence is correct.\<close>

definition best_label :: "('ts, 'p, 'r) env \<Rightarrow> string \<Rightarrow> ('p, 'r) CTParse list \<Rightarrow> bool" where
  "best_label W target ps =
     (case max_by_key fst (map (\<lambda>p. (score p, label W target p)) ps) of
        Inl e \<Rightarrow> False | Inr best \<Rightarrow> snd best)"

text \<open>All candidates of the sentences of one test case, and whether a sentence passes.\<close>

definition all_parses :: "('ts, 'p, 'r) env \<Rightarrow> 'ts \<Rightarrow> int \<Rightarrow> string list \<Rightarrow> ('p, 'r) CTParse list" where
  "all_parses W t msd tests = concat (map (\<lambda>test. yielded (cands W t msd test)) tests)"

definition passes :: "('ts, 'p, 'r) env \<Rightarrow> string \<Rightarrow> 'ts \<Rightarrow> int \<Rightarrow> string \<Rightarrow> bool" where
  "passes W target t msd test = (\<exists>p \<in> set (yielded (cands W t msd test)). label W target p)"

text \<open>
  The same per test case \<open>(target, ts_str, tests)\<close> of a corpus, as \<open>run_corpus\<close> runs it
  (stack depth 0, reference time parsed from \<open>ts_str\<close>): its candidates, their labels, the
  sentences whose first candidate is correct, whether every sentence passes, and whether
  every sentence yields at least one candidate and no \<open>None\<close>.
\<close>

definition case_parses ::
  "('ts, 'p, 'r) env \<Rightarrow> string \<times> string \<times> string list \<Rightarrow> ('p, 'r) CTParse list" where
  "case_parses W k =
     (case k of (target, ts_str, tests) \<Rightarrow>
        (case strptime W ts_str ''%Y-%m-%dT%H:%M'' of
           Inl e \<Rightarrow> [] | Inr t \<Rightarrow> all_parses W t 0 tests))"

definition case_labels :: "('ts, 'p, 'r) env \<Rightarrow> string \<times> string \<times> string list \<Rightarrow> bool list" where
  "case_labels W k = (case k of (target, ts_str, tests) \<Rightarrow> map (label W target) (case_parses W k))"

definition case_firsts :: "('ts, 'p, 'r) env \<Rightarrow> string \<times> string \<times> string list \<Rightarrow> string list" where
  "case_firsts W k =
     (case k of (target, ts_str, tests) \<Rightarrow>
        (case strptime W ts_str ''%Y-%m-%dT%H:%M'' of
           Inl e \<Rightarrow> []
         | Inr t \<Rightarrow> filter (\<lambda>test. first_label W target (yielded (cands W t 0 test))) tests))"

definition case_passes :: "('ts, 'p, 'r) env \<Rightarrow> string \<times> string \<times> string list \<Rightarrow> bool" where
  "case_passes W k =
     (case k of (target, ts_str, tests) \<Rightarrow>
        (case strptime W ts_str ''%Y-%m-%dT%H:%M'' of
           Inl e \<Rightarrow> False
         | Inr t \<Rightarrow> \<forall>test \<in> set tests. passes W target t 0 test))"

definition case_runs :: "('ts, 'p, 'r) env \<Rightarrow> string \<times> string \<times> string list \<Rightarrow> bool" where
  "case_runs W k =
     (case k of (target, ts_str, tests) \<Rightarrow>
        (case strptime W ts_str ''%Y-%m-%dT%H:%M'' of
           Inl e \<Rightarrow> False
         | Inr t \<Rightarrow> \<forall>test \<in> set tests. None \<notin> set (cands W t 0 test) \<and> cands W t 0 test \<noteq> []))"

text \<open>Over a whole corpus: the labels of all candidates, and the sentences whose first
  candidate is correct.\<close>

definition corpus_labels ::
  "('ts, 'p, 'r) env \<Rightarrow> (string \<times> string \<times> string list) list \<Rightarrow> bool list" where
  "corpus_labels W corpus = concat (map (case_labels W) corpus)"

definition corpus_firsts ::
  "('ts, 'p, 'r) env \<Rightarrow> (string \<times> string \<times> string list) list \<Rightarrow> string list" where
  "corpus_firsts W corpus = concat (map (case_firsts W) corpus)"

text \<open>The warnings among the log messages.\<close>

fun is_warning :: "log_msg \<Rightarrow> bool" where
  "is_warning (WarnNeverProduced target test) = True"
| "is_warning (WarnNotAlways target) = True"
| "is_warning m = False"

section \<open>Example inputs\<close>

text \<open>
  An environment for concrete runs: the generator answers from a table of sentences (no
  candidate for a sentence that is not in the table), every timestamp parses to itself,
  and resolutions and production elements are their own text.
\<close>

definition table_world ::
  "(string \<times> (string, string) CTParse option list) list \<Rightarrow> (string, string, string) env" where
  "table_world tab =
     \<lparr>ctparse_gen = (\<lambda>text t rml tmo msd sc lt. case map_of tab text of None \<Rightarrow> [] | Some cs \<Rightarrow> cs),
      strptime = (\<lambda>s fmt. Inr s),
      nb_str = (\<lambda>r. r),
      str = (\<lambda>p. p)\<rparr>"

text \<open>A candidate with the given production and resolution, scored 0 as by the dummy scorer.\<close>

definition cand :: "string list \<Rightarrow> string \<Rightarrow> (string, string) CTParse option" where
  "cand rules res = Some \<lparr>production = rules, resolution = res, score = 0\<rparr>"

text \<open>
  The generator yields nothing for any sentence; the corpus of one test case with the one
  sentence \<open>tomorrow at 3pm\<close>.
\<close>

definition world_silent :: "(string, string, string) env" where
  "world_silent = table_world []"

definition corpus_tomorrow :: "(string \<times> string \<times> string list) list" where
  "corpus_tomorrow = [(''Time(2023-01-02T15:00:00)'', ''2023-01-01T00:00'', [''tomorrow at 3pm''])]"

text \<open>
  Nothing for \<open>tomorrow at 3pm\<close>, one wrong candidate for \<open>next week\<close>; a corpus of two test
  cases, and its second test case alone.
\<close>

definition world_next_week :: "(string, string, string) env" where
  "world_next_week = table_world [(''next week'', [cand [''r1''] ''Time(2023-01-09T00:00:00)''])]"

definition corpus_two_cases :: "(string \<times> string \<times> string list) list" where
  "corpus_two_cases =
     [(''Time(2023-01-02T15:00:00)'', ''2023-01-01T00:00'', [''tomorrow at 3pm'']),
      (''Time(2023-01-08T00:00:00)'', ''2023-01-01T00:00'', [''next week''])]"

definition corpus_second_case :: "(string \<times> string \<times> string list) list" where
  "corpus_second_case = [(''Time(2023-01-08T00:00:00)'', ''2023-01-01T00:00'', [''next week''])]"

text \<open>One correct candidate for each of two sentences of one test case.\<close>

definition world_two_sentences :: "(string, string, string) env" where
  "world_two_sentences =
     table_world [(''tomorrow at 3pm'', [cand [''r1'', ''r2''] ''Time(2023-01-02T15:00:00)'']),
                  (''tomorrow 15:00'', [cand [''r3''] ''Time(2023-01-02T15:00:00)''])]"

definition corpus_two_sentences :: "(string \<times> string \<times> string list) list" where
  "corpus_two_sentences =
     [(''Time(2023-01-02T15:00:00)'', ''2023-01-01T00:00'', [''tomorrow at 3pm'', ''tomorrow 15:00''])]"

text \<open>A correct candidate yielded first, then a wrong one, for the one sentence.\<close>

definition world_two_candidates :: "(string, string, string) env" where
  "world_two_candidates =
     table_world [(''tomorrow at 3pm'', [cand [''r1''] ''Time(2023-01-02T15:00:00)'',
                                         cand [''r2''] ''Time(2023-01-02T03:00:00)''])]"

text \<open>A correct candidate with two rules, then a wrong one with one rule.\<close>

definition world_three_rows :: "(string, string, string) env" where
  "world_three_rows =
     table_world [(''tomorrow at 3pm'', [cand [''r1'', ''r2''] ''Time(2023-01-02T15:00:00)'',
                                         cand [''r3''] ''Time(2023-01-02T03:00:00)''])]"

text \<open>Corpora without a sentence, and one whose sentence is not in any table.\<close>

definition corpus_no_sentence :: "(string \<times> string \<times> string list) list" where
  "corpus_no_sentence = [(''Time(2023-01-02T15:00:00)'', ''2023-01-01T00:00'', [])]"

definition corpus_two_days :: "(string \<times> string \<times> string list) list" where
  "corpus_two_days = [(''Time(2023-01-03T00:00:00)'', ''2023-01-01T00:00'', [''in two days''])]"

text \<open>
  A \<open>None\<close> and then a candidate whose resolution is not the gold value of the entry.
\<close>

definition world_mismatch :: "(string, string, string) env" where
  "world_mismatch =
     table_world [(''tomorrow at 3pm'', [None, cand [''r1'', ''r2''] ''Time(2023-01-02T03:00:00)''])]"

definition entry_tomorrow :: "(string, string) TimeParseEntry" where
  "entry_tomorrow =
     \<lparr>entry_text = ''tomorrow at 3pm'', ts = ''2023-01-01T00:00:00'',
      gold = ''Time(2023-01-02T15:00:00)''\<rparr>"

section \<open>Properties of \<open>make_partial_rule_dataset\<close>\<close>

lemma rows_of_append: "rows_of (a @ b) = rows_of a @ rows_of b"
  by (induction a rule: rows_of.induct) simp_all

lemma rows_of_Yield: "rows_of (map (\<lambda>(X, y). Yield X y) rs) = rs"
  by (induction rs) auto

lemma parses_loop_append:
  "parses_loop f g (ps @ qs) = parses_loop f g ps @ parses_loop f g qs"
  by (induction ps rule: parses_loop.induct) simp_all

lemma parses_loop_concat:
  "parses_loop f g ps =
     concat (map (\<lambda>c. case c of None \<Rightarrow> [] | Some parse \<Rightarrow> parse_rows f g parse) ps)"
  by (induction ps rule: parses_loop.induct) simp_all

lemma parses_loop_filter_None:
  "parses_loop f g (filter (\<lambda>c. c \<noteq> None) ps) = parses_loop f g ps"
  by (induction ps rule: parses_loop.induct) simp_all

lemma parses_loop_filter_Some:
  "parses_loop f g (filter (\<lambda>c. \<exists>y. c = Some y) ps) = parses_loop f g ps"
  using parses_loop_filter_None[of f g ps] by simp

lemma rows_of_entries_loop:
  "rows_of (entries_loop W sc tmo msd rml es) =
     concat (map (\<lambda>(d, entry). parses_loop (str W) (gold entry)
        (ctparse_gen W (entry_text entry) (ts entry) rml tmo msd sc False)) es)"
  by (induction es) (auto simp: rows_of_append rows_of_Yield split: option.splits)

lemma rows_of_make_partial_rule_dataset:
  "rows_of (make_partial_rule_dataset W entries sc tmo msd rml progress) =
     concat (map (\<lambda>entry. parses_loop (str W) (gold entry)
        (ctparse_gen W (entry_text entry) (ts entry) rml tmo msd sc False)) entries)"
  by (simp add: make_partial_rule_dataset_def progress_bar_def rows_of_entries_loop comp_def)

text \<open>
  C1. A candidate with a production of length \<open>n\<close> gives exactly \<open>n\<close> rows; row \<open>i\<close>
  (counted from 0) holds the stringified prefix of length \<open>i + 1\<close> and the label
  \<open>resolution = gold\<close> of the whole candidate, the same in every row. The rows of
  \<open>make_partial_rule_dataset\<close> are these blocks, entry by entry and candidate by candidate.
\<close>

theorem make_partial_rule_dataset_prefix_rows:
  "length (parse_rows f g parse) = length (production parse)
   \<and> (\<forall>i < length (production parse).
        parse_rows f g parse ! i = (map f (take (Suc i) (production parse)), resolution parse = g))
   \<and> rows_of (make_partial_rule_dataset W entries sc tmo msd rml progress) =
       concat (map (\<lambda>entry.
         concat (map (\<lambda>c. case c of None \<Rightarrow> [] | Some parse \<Rightarrow> parse_rows (str W) (gold entry) parse)
           (ctparse_gen W (entry_text entry) (ts entry) rml tmo msd sc False))) entries)"
  by (simp add: rows_of_make_partial_rule_dataset parses_loop_concat parse_rows_def Let_def
       del: upt_Suc)

theorem make_partial_rule_dataset_prefix_rows_witness:
  "length (parse_rows (\<lambda>p. p) ''Time(2023-01-02T15:00:00)''
     \<lparr>production = [''r1'', ''r2''], resolution = ''Time(2023-01-02T15:00:00)'', score = 0\<rparr>) = 2
   \<and> parse_rows (\<lambda>p. p) ''Time(2023-01-02T15:00:00)''
        \<lparr>production = [''r1'', ''r2''], resolution = ''Time(2023-01-02T15:00:00)'', score = 0\<rparr> ! 0
       = ([''r1''], True)
   \<and> parse_rows (\<lambda>p. p) ''Time(2023-01-02T15:00:00)''
        \<lparr>production = [''r1'', ''r2''], resolution = ''Time(2023-01-02T15:00:00)'', score = 0\<rparr> ! 1
       = ([''r1'', ''r2''], True)
   \<and> rows_of (make_partial_rule_dataset
        (table_world [(''tomorrow at 3pm'', [cand [''r1'', ''r2''] ''Time(2023-01-02T15:00:00)''])])
        [\<lparr>entry_text = ''tomorrow at 3pm'', ts = ''2023-01-01T00:00:00'',
          gold = ''Time(2023-01-02T15:00:00)''\<rparr>]
        DummyScorer 1 0 1 False)
       = [([''r1''], True), ([''r1'', ''r2''], True)]"
  using make_partial_rule_dataset_prefix_rows
    [of "\<lambda>p. p" "''Time(2023-01-02T15:00:00)''"
        "\<lparr>production = [''r1'', ''r2''], resolution = ''Time(2023-01-02T15:00:00)'', score = 0\<rparr>"
        "table_world [(''tomorrow at 3pm'', [cand [''r1'', ''r2''] ''Time(2023-01-02T15:00:00)''])]"
        "[\<lparr>entry_text = ''tomorrow at 3pm'', ts = ''2023-01-01T00:00:00'',
          gold = ''Time(2023-01-02T15:00:00)''\<rparr>]"
        DummyScorer 1 0 1 False]
  by (simp add: table_world_def cand_def parse_rows_def)

text \<open>
  C8. With \<open>progress\<close> set, the rows yielded are the same, in the same order, as without
  it; the progress bar adds only the descriptions it displays.
\<close>

theorem make_partial_rule_dataset_progress_rows:
  "rows_of (make_partial_rule_dataset W entries sc tmo msd rml True) =
   rows_of (make_partial_rule_dataset W entries sc tmo msd rml False)"
  by (simp add: rows_of_make_partial_rule_dataset)

text \<open>
  C9. The builder has no failing branch: it is a total function to its rows, and these are,
  entry by entry and candidate by candidate, nothing for a \<open>None\<close> and otherwise the
  production prefixes labelled with \<open>resolution = gold\<close> of the entry. So where the
  generator yields a \<open>None\<close> for an entry, the rows of the builder are those of the entries
  before, of the other candidates of the entry, and of the entries after; and where it
  yields a candidate whose resolution differs from the gold value of the entry, the rows
  of the builder hold, at that place, the prefixes of the candidate, each labelled false.
  The same holds of the candidate loop alone, and the rows of the builder do not change
  when every \<open>None\<close> is removed from what the generator yields.
\<close>

theorem make_partial_rule_dataset_mismatch_and_None:
  "rows_of (make_partial_rule_dataset W entries sc tmo msd rml progress) =
       concat (map (\<lambda>entry.
         concat (map (\<lambda>c. case c of
                       None \<Rightarrow> []
                     | Some parse \<Rightarrow>
                         map (\<lambda>i. (map (str W) (take i (production parse)), resolution parse = gold entry))
                           [1 ..< length (production parse) + 1])
           (ctparse_gen W (entry_text entry) (ts entry) rml tmo msd sc False))) entries)
   \<and> (ctparse_gen W (entry_text entry) (ts entry) rml tmo msd sc False = ps @ None # qs \<longrightarrow>
        rows_of (make_partial_rule_dataset W (pre @ entry # post) sc tmo msd rml progress) =
          rows_of (make_partial_rule_dataset W pre sc tmo msd rml progress)
          @ parses_loop (str W) (gold entry) (ps @ qs)
          @ rows_of (make_partial_rule_dataset W post sc tmo msd rml progress))
   \<and> (ctparse_gen W (entry_text entry) (ts entry) rml tmo msd sc False = ps @ Some parse # qs
        \<and> resolution parse \<noteq> gold entry \<longrightarrow>
        rows_of (make_partial_rule_dataset W (pre @ entry # post) sc tmo msd rml progress) =
          rows_of (make_partial_rule_dataset W pre sc tmo msd rml progress)
          @ parses_loop (str W) (gold entry) ps
          @ map (\<lambda>i. (map (str W) (take i (production parse)), False))
              [1 ..< length (production parse) + 1]
          @ parses_loop (str W) (gold entry) qs
          @ rows_of (make_partial_rule_dataset W post sc tmo msd rml progress))
   \<and> parses_loop f g (ps @ None # qs) = parses_loop f g (ps @ qs)
   \<and> (resolution parse \<noteq> g \<longrightarrow>
        parses_loop f g (ps @ Some parse # qs) =
          parses_loop f g ps
          @ map (\<lambda>i. (map f (take i (production parse)), False)) [1 ..< length (production parse) + 1]
          @ parses_loop f g qs)
   \<and> rows_of (make_partial_rule_dataset W entries sc tmo msd rml progress) =
       rows_of (make_partial_rule_dataset
         (W\<lparr>ctparse_gen := \<lambda>text t r tm m s lt. filter (\<lambda>c. c \<noteq> None) (ctparse_gen W text t r tm m s lt)\<rparr>)
         entries sc tmo msd rml progress)"
proof (intro conjI impI)
  show "rows_of (make_partial_rule_dataset W entries sc tmo msd rml progress) =
       concat (map (\<lambda>entry.
         concat (map (\<lambda>c. case c of
                       None \<Rightarrow> []
                     | Some parse \<Rightarrow>
                         map (\<lambda>i. (map (str W) (take i (production parse)), resolution parse = gold entry))
                           [1 ..< length (production parse) + 1])
           (ctparse_gen W (entry_text entry) (ts entry) rml tmo msd sc False))) entries)"
    by (simp add: rows_of_make_partial_rule_dataset parses_loop_concat parse_rows_def Let_def
          del: upt_Suc cong: option.case_cong)
next
  assume "ctparse_gen W (entry_text entry) (ts entry) rml tmo msd sc False = ps @ None # qs"
  then show "rows_of (make_partial_rule_dataset W (pre @ entry # post) sc tmo msd rml progress) =
          rows_of (make_partial_rule_dataset W pre sc tmo msd rml progress)
          @ parses_loop (str W) (gold entry) (ps @ qs)
          @ rows_of (make_partial_rule_dataset W post sc tmo msd rml progress)"
    by (simp add: rows_of_make_partial_rule_dataset parses_loop_append)
next
  assume "ctparse_gen W (entry_text entry) (ts entry) rml tmo msd sc False = ps @ Some parse # qs
        \<and> resolution parse \<noteq> gold entry"
  then show "rows_of (make_partial_rule_dataset W (pre @ entry # post) sc tmo msd rml progress) =
          rows_of (make_partial_rule_dataset W pre sc tmo msd rml progress)
          @ parses_loop (str W) (gold entry) ps
          @ map (\<lambda>i. (map (str W) (take i (production parse)), False))
              [1 ..< length (production parse) + 1]
          @ parses_loop (str W) (gold entry) qs
          @ rows_of (make_partial_rule_dataset W post sc tmo msd rml progress)"
    by (simp add: rows_of_make_partial_rule_dataset parses_loop_append parse_rows_def
          del: upt_Suc)
next
  show "parses_loop f g (ps @ None # qs) = parses_loop f g (ps @ qs)"
    by (simp add: parses_loop_append)
next
  assume "resolution parse \<noteq> g"
  then show "parses_loop f g (ps @ Some parse # qs) =
          parses_loop f g ps
          @ map (\<lambda>i. (map f (take i (production parse)), False)) [1 ..< length (production parse) + 1]
          @ parses_loop f g qs"
    by (simp add: parses_loop_append parse_rows_def del: upt_Suc)
next
  show "rows_of (make_partial_rule_dataset W entries sc tmo msd rml progress) =
       rows_of (make_partial_rule_dataset
         (W\<lparr>ctparse_gen := \<lambda>text t r tm m s lt. filter (\<lambda>c. c \<noteq> None) (ctparse_gen W text t r tm m s lt)\<rparr>)
         entries sc tmo msd rml progress)"
    by (simp add: rows_of_make_partial_rule_dataset parses_loop_filter_Some)
qed

theorem make_partial_rule_dataset_mismatch_and_None_witness:
  "rows_of (make_partial_rule_dataset world_mismatch [entry_tomorrow] DummyScorer 1 0 1 False)
     = [([''r1''], False), ([''r1'', ''r2''], False)]
   \<and> rows_of (make_partial_rule_dataset world_mismatch [entry_tomorrow] DummyScorer 1 0 1 True)
     = [([''r1''], False), ([''r1'', ''r2''], False)]
   \<and> parses_loop (\<lambda>p. p) ''Time(2023-01-02T15:00:00)''
        ([None] @ Some \<lparr>production = [''r1'', ''r2''], resolution = ''Time(2023-01-02T03:00:00)'', score = 0\<rparr> # [])
       = [([''r1''], False), ([''r1'', ''r2''], False)]"
proof -
  let ?p = "\<lparr>production = [''r1'', ''r2''], resolution = ''Time(2023-01-02T03:00:00)'', score = 0\<rparr>
              :: (string, string) CTParse"
  have gen: "ctparse_gen world_mismatch (entry_text entry_tomorrow) (ts entry_tomorrow) 1 1 0 DummyScorer False
               = [None] @ Some ?p # []"
    by (simp add: world_mismatch_def entry_tomorrow_def table_world_def cand_def)
  have mis: "resolution ?p \<noteq> gold entry_tomorrow"
    by (simp add: entry_tomorrow_def)
  have mis': "resolution ?p \<noteq> ''Time(2023-01-02T15:00:00)''"
    by simp
  have e: "rows_of (make_partial_rule_dataset world_mismatch [] DummyScorer 1 0 1 b) = []" for b
    by (simp add: make_partial_rule_dataset_def progress_bar_def)
  have n: "parses_loop (str world_mismatch) (gold entry_tomorrow) [None] = []"
    by simp
  have s: "str world_mismatch = (\<lambda>p. p)"
    by (simp add: world_mismatch_def table_world_def)
  from make_partial_rule_dataset_mismatch_and_None
         [of world_mismatch "[entry_tomorrow]" DummyScorer 1 0 1 False entry_tomorrow "[None]" "[]"
             "[]" "[]" ?p "\<lambda>p. p" "''Time(2023-01-02T15:00:00)''"]
       make_partial_rule_dataset_mismatch_and_None
         [of world_mismatch "[entry_tomorrow]" DummyScorer 1 0 1 True entry_tomorrow "[None]" "[]"
             "[]" "[]" ?p "\<lambda>p. p" "''Time(2023-01-02T15:00:00)''"]
       gen mis mis' e n s
  show ?thesis
    by simp
qed

section \<open>Properties of \<open>parse_nb_string\<close>\<close>

lemma startswith_Interval_not_Time: "startswith s ''Interval'' \<Longrightarrow> \<not> startswith s ''Time''"
  by (cases s) (auto simp: startswith_def)

lemma startswith_Duration_not_Time: "startswith s ''Duration'' \<Longrightarrow> \<not> startswith s ''Time''"
  by (cases s) (auto simp: startswith_def)

lemma startswith_Duration_not_Interval: "startswith s ''Duration'' \<Longrightarrow> \<not> startswith s ''Interval''"
  by (cases s) (auto simp: startswith_def)

text \<open>
  C7. A string that starts with \<open>Time\<close>, \<open>Interval\<close> or \<open>Duration\<close> is handed, without
  its first 7, 11 or 11 characters and its last one, to the parser of that type, whose
  result or exception is the result; every other string raises the \<open>ValueError\<close> that
  names it.
\<close>

theorem parse_nb_string_dispatch:
  "(startswith s ''Time'' \<longrightarrow> parse_nb_string T I D s = T (slice_to_last 7 s))
   \<and> (startswith s ''Interval'' \<longrightarrow> parse_nb_string T I D s = I (slice_to_last 11 s))
   \<and> (startswith s ''Duration'' \<longrightarrow> parse_nb_string T I D s = D (slice_to_last 11 s))
   \<and> (\<not> startswith s ''Time'' \<and> \<not> startswith s ''Interval'' \<and> \<not> startswith s ''Duration'' \<longrightarrow>
        parse_nb_string T I D s =
          Inl (ValueError ([CHR 0x27] @ s @ [CHR 0x27] @ '' has an invalid format'')))"
  using startswith_Interval_not_Time[of s] startswith_Duration_not_Time[of s]
    startswith_Duration_not_Interval[of s]
  by (auto simp: parse_nb_string_def)

theorem parse_nb_string_dispatch_witness:
  "startswith ''Time[]{2023-01-02 15:00 (X/X)}'' ''Time''
   \<and> parse_nb_string (\<lambda>x. Inr (''T'', x)) (\<lambda>x. Inr (''I'', x)) (\<lambda>x. Inr (''D'', x))
        ''Time[]{2023-01-02 15:00 (X/X)}'' = Inr (''T'', ''2023-01-02 15:00 (X/X)'')
   \<and> startswith ''Interval[]{a - b}'' ''Interval''
   \<and> parse_nb_string (\<lambda>x. Inr (''T'', x)) (\<lambda>x. Inr (''I'', x)) (\<lambda>x. Inr (''D'', x))
        ''Interval[]{a - b}'' = Inr (''I'', ''a - b'')
   \<and> startswith ''Duration[]{3 days}'' ''Duration''
   \<and> parse_nb_string (\<lambda>x. Inr (''T'', x)) (\<lambda>x. Inr (''I'', x)) (\<lambda>x. Inr (''D'', x))
        ''Duration[]{3 days}'' = Inr (''D'', ''3 days'')
   \<and> \<not> startswith ''time[]{x}'' ''Time'' \<and> \<not> startswith ''time[]{x}'' ''Interval''
   \<and> \<not> startswith ''time[]{x}'' ''Duration''
   \<and> parse_nb_string (\<lambda>x. Inr (''T'', x)) (\<lambda>x. Inr (''I'', x)) (\<lambda>x. Inr (''D'', x))
        ''time[]{x}'' = Inl (ValueError ([CHR 0x27] @ ''time[]{x}'' @ [CHR 0x27] @ '' has an invalid format''))"
  using
    parse_nb_string_dispatch [of "''Time[]{2023-01-02 15:00 (X/X)}''"
      "\<lambda>x. Inr (''T'', x)" "\<lambda>x. Inr (''I'', x)" "\<lambda>x. Inr (''D'', x)"]
    parse_nb_string_dispatch [of "''Interval[]{a - b}''"
      "\<lambda>x. Inr (''T'', x)" "\<lambda>x. Inr (''I'', x)" "\<lambda>x. Inr (''D'', x)"]
    parse_nb_string_dispatch [of "''Duration[]{3 days}''"
      "\<lambda>x. Inr (''T'', x)" "\<lambda>x. Inr (''I'', x)" "\<lambda>x. Inr (''D'', x)"]
    parse_nb_string_dispatch [of "''time[]{x}''"
      "\<lambda>x. Inr (''T'', x)" "\<lambda>x. Inr (''I'', x)" "\<lambda>x. Inr (''D'', x)"]
  by (simp add: startswith_def slice_to_last_def)

section \<open>Invariants of the validator\<close>

lemma yielded_simps [simp]:
  "yielded [] = []" "yielded (None # cs) = yielded cs" "yielded (Some p # cs) = p # yielded cs"
  by (simp_all add: yielded_def)

lemma all_parses_simps [simp]:
  "all_parses W t msd [] = []"
  "all_parses W t msd (test # rest) = yielded (cands W t msd test) @ all_parses W t msd rest"
  by (simp_all add: all_parses_def)

lemma fold_prefix_rows:
  "fold (\<lambda>i v. v\<lparr>Xs := Xs v @ [f i], ys := ys v @ [y]\<rparr>) is (s::one_test_vars) =
     s\<lparr>Xs := Xs s @ map f is, ys := ys s @ replicate (length is) y\<rparr>"
  by (induction "is" arbitrary: s) (simp_all add: replicate_append_same)

lemma parse_body_eq:
  "parse_body W target s parse =
     s\<lparr>Xs := Xs s @ feats W parse,
       ys := ys s @ replicate (length (production parse)) (label W target parse),
       one_prod_passes := (one_prod_passes s \<or> label W target parse),
       pos_parses := pos_parses s + of_bool (label W target parse),
       neg_parses := neg_parses s + of_bool (\<not> label W target parse),
       pos_first_parses := pos_first_parses s + of_bool (label W target parse \<and> first_prod s),
       first_prod := False,
       y_score := y_score s @ [(score parse, label W target parse)]\<rparr>"
  unfolding parse_body_def Let_def fold_prefix_rows label_def feats_def
  by (simp del: upt_Suc)

lemma parse_loop_Inr:
  "parse_loop W target s cs = Inr s' \<Longrightarrow>
     None \<notin> set cs
     \<and> Xs s' = Xs s @ concat (map (feats W) (yielded cs))
     \<and> ys s' = ys s @ concat (map (\<lambda>p. replicate (length (production p)) (label W target p)) (yielded cs))
     \<and> one_prod_passes s' = (one_prod_passes s \<or> (\<exists>p \<in> set (yielded cs). label W target p))
     \<and> pos_parses s' = pos_parses s + int (length (filter (label W target) (yielded cs)))
     \<and> neg_parses s' = neg_parses s + int (length (filter (\<lambda>p. \<not> label W target p) (yielded cs)))
     \<and> pos_first_parses s' = pos_first_parses s + of_bool (first_prod s \<and> first_label W target (yielded cs))
     \<and> y_score s' = y_score s @ map (\<lambda>p. (score p, label W target p)) (yielded cs)
     \<and> total_tests s' = total_tests s
     \<and> all_tests_pass s' = all_tests_pass s
     \<and> pos_best_scored s' = pos_best_scored s"
proof (induction W target s cs arbitrary: s' rule: parse_loop.induct)
  case (1 W target s)
  then show ?case by (simp add: first_label_def)
next
  case (2 W target s rest)
  then show ?case by simp
next
  case (3 W target s parse rest)
  from "3.prems" have "parse_loop W target (parse_body W target s parse) rest = Inr s'" by simp
  from "3.IH"[OF this] show ?case
    by (auto simp: parse_body_eq first_label_def)
qed

lemma max_by_key_Inr: "max_by_key key xs = Inr b \<Longrightarrow> xs \<noteq> []"
  by (cases xs) simp_all

lemma test_loop_Inr:
  "test_loop W target t msd n s tests = (l, Inr s') \<Longrightarrow>
     (\<forall>test \<in> set tests. None \<notin> set (cands W t msd test) \<and> cands W t msd test \<noteq> [])
     \<and> Xs s' = Xs s @ concat (map (feats W) (all_parses W t msd tests))
     \<and> ys s' = ys s @ concat (map (\<lambda>p. replicate (length (production p)) (label W target p))
                                (all_parses W t msd tests))
     \<and> pos_parses s' = pos_parses s + int (length (filter (label W target) (all_parses W t msd tests)))
     \<and> neg_parses s' = neg_parses s
          + int (length (filter (\<lambda>p. \<not> label W target p) (all_parses W t msd tests)))
     \<and> pos_first_parses s' = pos_first_parses s
          + int (length (filter (\<lambda>test. first_label W target (yielded (cands W t msd test))) tests))
     \<and> pos_best_scored s' = pos_best_scored s
          + int (length (filter (\<lambda>test. best_label W target (yielded (cands W t msd test))) tests))
     \<and> total_tests s' = total_tests s + int n * int (length tests)
     \<and> all_tests_pass s' = (all_tests_pass s \<and> (\<forall>test \<in> set tests. passes W target t msd test))
     \<and> l = concat (map (\<lambda>test. if passes W target t msd test then []
                                 else [WarnNeverProduced target test]) tests)"
proof (induction tests arbitrary: s l)
  case Nil
  then show ?case by simp
next
  case (Cons test rest)
  let ?s1 = "s\<lparr>one_prod_passes := False, first_prod := True, y_score := []\<rparr>"
  from Cons.prems obtain s2 where
    pl: "parse_loop W target ?s1 (cands W t msd test) = Inr s2"
    by (auto simp: cands_def split: sum.splits)
  note f2 = parse_loop_Inr[OF pl]
  from Cons.prems pl obtain best where
    mx: "max_by_key fst (y_score s2) = Inr best"
    by (auto simp: cands_def Let_def split: sum.splits)
  let ?s3 = "s2\<lparr>pos_best_scored := pos_best_scored s2 + of_bool (snd best),
                total_tests := total_tests s2 + int n,
                all_tests_pass := (all_tests_pass s2 \<and> one_prod_passes s2)\<rparr>"
  from Cons.prems pl mx obtain l' where
    tl: "test_loop W target t msd n ?s3 rest = (l', Inr s')"
    and l: "l = (if \<not> one_prod_passes s2 then [WarnNeverProduced target test] else []) @ l'"
    by (auto simp: cands_def Let_def split: sum.splits prod.splits)
  note f3 = Cons.IH[OF tl]
  have ne: "cands W t msd test \<noteq> []"
    using max_by_key_Inr[OF mx] f2 by auto
  have opp: "one_prod_passes s2 = passes W target t msd test"
    using f2 by (simp add: passes_def)
  have bl: "best_label W target (yielded (cands W t msd test)) = snd best"
    using f2 mx by (simp add: best_label_def)
  show ?case
    using f2 f3 ne l opp bl by (simp add: algebra_simps)
qed

lemma test_loop_log:
  "test_loop W target t msd n s tests = (l, r) \<Longrightarrow> \<forall>m \<in> set l. is_warning m"
proof (induction tests arbitrary: s l r)
  case Nil
  then show ?case by simp
next
  case (Cons test rest)
  show ?case
  proof (cases "parse_loop W target (s\<lparr>one_prod_passes := False, first_prod := True, y_score := []\<rparr>)
             (ctparse_gen W test t 1 0 msd DummyScorer False)")
    case (Inl e)
    with Cons.prems show ?thesis by simp
  next
    case (Inr s2)
    show ?thesis
    proof (cases "max_by_key fst (y_score s2)")
      case (Inl e)
      with Cons.prems Inr show ?thesis by (auto simp: Let_def split: if_splits)
    next
      case mx: (Inr best)
      obtain l' r' where tl: "test_loop W target t msd n
                       (s2\<lparr>pos_best_scored := pos_best_scored s2 + of_bool (snd best),
                           total_tests := total_tests s2 + int n,
                           all_tests_pass := (all_tests_pass s2 \<and> one_prod_passes s2)\<rparr>)
                       rest = (l', r')"
        by (cases "test_loop W target t msd n
                       (s2\<lparr>pos_best_scored := pos_best_scored s2 + of_bool (snd best),
                           total_tests := total_tests s2 + int n,
                           all_tests_pass := (all_tests_pass s2 \<and> one_prod_passes s2)\<rparr>)
                       rest") auto
      from Cons.IH[OF tl] have "\<forall>m \<in> set l'. is_warning m" .
      with Cons.prems Inr mx tl show ?thesis
        by (auto simp: Let_def split: if_splits)
    qed
  qed
qed

lemma one_test_log:
  "run_corpus_one_test W target ts_str tests msd = (l, r) \<Longrightarrow> \<forall>m \<in> set l. is_warning m"
  by (auto simp: run_corpus_one_test_def split: sum.splits prod.splits if_splits
        dest!: test_loop_log)

lemma corpus_loop_log:
  "corpus_loop W c corpus = (l, r) \<Longrightarrow> \<forall>m \<in> set l. is_warning m"
proof (induction corpus arbitrary: c l r)
  case Nil
  then show ?case by simp
next
  case (Cons k rest)
  obtain target ts_str tests where k: "k = (target, ts_str, tests)"
    by (cases k) auto
  obtain l1 r1 where one: "run_corpus_one_test W target ts_str tests 0 = (l1, r1)"
    by (cases "run_corpus_one_test W target ts_str tests 0") auto
  note w1 = one_test_log[OF one]
  show ?case
  proof (cases r1)
    case (Inl e)
    with Cons.prems k one w1 show ?thesis by simp
  next
    case (Inr v)
    obtain X Y tt pos neg pf pb failed where v: "v = (X, Y, tt, pos, neg, pf, pb, failed)"
      by (cases v) auto
    let ?c1 = "c\<lparr>Xs := Xs c @ X, ys := ys c @ Y,
                 total_tests := total_tests c + tt,
                 pos_parses := pos_parses c + pos,
                 neg_parses := neg_parses c + neg,
                 pos_first_parses := pos_first_parses c + pf,
                 pos_best_scored := pos_best_scored c + pb,
                 at_least_one_failed := (at_least_one_failed c \<or> failed)\<rparr>"
    obtain l2 r2 where rest: "corpus_loop W ?c1 rest = (l2, r2)"
      by (cases "corpus_loop W ?c1 rest") auto
    from Cons.IH[OF rest] have "\<forall>m \<in> set l2. is_warning m" .
    with Cons.prems k one Inr v rest w1 show ?thesis by auto
  qed
qed

lemma one_test_fields:
  assumes "run_corpus_one_test W target ts_str tests msd = (l, Inr (X, Y, tt, pos, neg, pf, pb, failed))"
    and "strptime W ts_str ''%Y-%m-%dT%H:%M'' = Inr t"
  shows "(\<forall>test \<in> set tests. None \<notin> set (cands W t msd test) \<and> cands W t msd test \<noteq> [])
     \<and> X = concat (map (feats W) (all_parses W t msd tests))
     \<and> Y = concat (map (\<lambda>p. replicate (length (production p)) (label W target p))
                      (all_parses W t msd tests))
     \<and> pos = int (length (filter (label W target) (all_parses W t msd tests)))
     \<and> neg = int (length (filter (\<lambda>p. \<not> label W target p) (all_parses W t msd tests)))
     \<and> pf = int (length (filter (\<lambda>test. first_label W target (yielded (cands W t msd test))) tests))
     \<and> pb = int (length (filter (\<lambda>test. best_label W target (yielded (cands W t msd test))) tests))
     \<and> tt = int (length tests) * int (length tests)
     \<and> failed = (\<not> (\<forall>test \<in> set tests. passes W target t msd test))"
proof -
  from assms obtain l' s where
    tl: "test_loop W target t msd (length tests) one_test_init tests = (l', Inr s)"
    and r: "X = Xs s" "Y = ys s" "tt = total_tests s" "pos = pos_parses s" "neg = neg_parses s"
      "pf = pos_first_parses s" "pb = pos_best_scored s" "failed = (\<not> all_tests_pass s)"
    by (auto simp: run_corpus_one_test_def split: sum.splits prod.splits)
  note f = test_loop_Inr[OF tl]
  show ?thesis
    using f r by (simp add: one_test_init_def)
qed

lemma one_test_Inr:
  assumes "run_corpus_one_test W target ts_str tests 0 = (l, Inr (X, Y, tt, pos, neg, pf, pb, failed))"
  shows "case_runs W (target, ts_str, tests)
     \<and> X = concat (map (feats W) (case_parses W (target, ts_str, tests)))
     \<and> Y = concat (map (\<lambda>p. replicate (length (production p)) (label W target p))
                      (case_parses W (target, ts_str, tests)))
     \<and> pos = int (length (filter (\<lambda>b. b) (case_labels W (target, ts_str, tests))))
     \<and> neg = int (length (filter Not (case_labels W (target, ts_str, tests))))
     \<and> pf = int (length (case_firsts W (target, ts_str, tests)))
     \<and> tt = int (length tests) * int (length tests)
     \<and> failed = (\<not> case_passes W (target, ts_str, tests))"
proof -
  from assms obtain t where t: "strptime W ts_str ''%Y-%m-%dT%H:%M'' = Inr t"
    by (auto simp: run_corpus_one_test_def split: sum.splits)
  note f = one_test_fields[OF assms t]
  show ?thesis
    using f t
    by (simp add: case_runs_def case_parses_def case_labels_def case_firsts_def case_passes_def
          filter_map comp_def)
qed

lemma corpus_loop_Inr:
  "corpus_loop W c corpus = (l, Inr c') \<Longrightarrow>
     (\<forall>k \<in> set corpus. case_runs W k)
     \<and> Xs c' = Xs c @ concat (map (\<lambda>k. concat (map (feats W) (case_parses W k))) corpus)
     \<and> ys c' = ys c @ concat (map (\<lambda>k. concat (map (\<lambda>p. replicate (length (production p)) (label W (fst k) p))
                      (case_parses W k))) corpus)
     \<and> pos_parses c' = pos_parses c + int (length (filter (\<lambda>b. b) (concat (map (case_labels W) corpus))))
     \<and> neg_parses c' = neg_parses c + int (length (filter Not (concat (map (case_labels W) corpus))))
     \<and> pos_first_parses c' = pos_first_parses c + int (length (concat (map (case_firsts W) corpus)))
     \<and> total_tests c' = total_tests c
          + (\<Sum>k\<leftarrow>corpus. int (length (snd (snd k))) * int (length (snd (snd k))))
     \<and> at_least_one_failed c' = (at_least_one_failed c \<or> (\<exists>k \<in> set corpus. \<not> case_passes W k))"
proof (induction corpus arbitrary: c l)
  case Nil
  then show ?case by simp
next
  case (Cons k rest)
  obtain target ts_str tests where k: "k = (target, ts_str, tests)"
    by (cases k) auto
  from Cons.prems k obtain l1 X Y tt pos neg pf pb failed where
    one: "run_corpus_one_test W target ts_str tests 0 = (l1, Inr (X, Y, tt, pos, neg, pf, pb, failed))"
    by (auto split: sum.splits prod.splits)
  let ?c1 = "c\<lparr>Xs := Xs c @ X, ys := ys c @ Y,
                 total_tests := total_tests c + tt,
                 pos_parses := pos_parses c + pos,
                 neg_parses := neg_parses c + neg,
                 pos_first_parses := pos_first_parses c + pf,
                 pos_best_scored := pos_best_scored c + pb,
                 at_least_one_failed := (at_least_one_failed c \<or> failed)\<rparr>"
  from Cons.prems k one obtain l2 where
    rest: "corpus_loop W ?c1 rest = (l2, Inr c')"
    by (auto split: sum.splits prod.splits)
  note f1 = one_test_Inr[OF one]
  note f2 = Cons.IH[OF rest]
  show ?case
    using f1 f2 by (simp add: k)
qed

lemma length_filter_both: "length (filter (\<lambda>b. b) bs) + length (filter Not bs) = length bs"
  by (induction bs) auto

lemma one_test_no_tests:
  "strptime W ts_str ''%Y-%m-%dT%H:%M'' = Inr t \<Longrightarrow>
     run_corpus_one_test W target ts_str [] msd = ([], Inr ([], [], 0, 0, 0, 0, 0, False))"
  by (simp add: run_corpus_one_test_def one_test_init_def)

lemma corpus_loop_no_tests:
  "\<forall>k \<in> set corpus. snd (snd k) = [] \<and> (\<exists>t. strptime W (fst (snd k)) ''%Y-%m-%dT%H:%M'' = Inr t)
     \<Longrightarrow> corpus_loop W c corpus = ([], Inr c)"
proof (induction corpus arbitrary: c)
  case Nil
  then show ?case by simp
next
  case (Cons k rest)
  obtain target ts_str tests where k: "k = (target, ts_str, tests)"
    by (cases k) auto
  from Cons.prems k obtain t where
    e: "tests = []" and t: "strptime W ts_str ''%Y-%m-%dT%H:%M'' = Inr t"
    by auto
  from Cons.prems have "corpus_loop W c rest = ([], Inr c)"
    by (intro Cons.IH) simp
  then show ?case
    by (simp add: k e one_test_no_tests[OF t])
qed

lemma case_runs_no_cands:
  assumes "case_runs W k"
    and "\<forall>t. strptime W (fst (snd k)) ''%Y-%m-%dT%H:%M'' = Inr t \<longrightarrow>
           (\<forall>test \<in> set (snd (snd k)). cands W t 0 test = [])"
  shows "case_labels W k = []"
proof -
  obtain target ts_str tests where k: "k = (target, ts_str, tests)"
    by (cases k) auto
  from assms(1) k obtain t where t: "strptime W ts_str ''%Y-%m-%dT%H:%M'' = Inr t"
    and ne: "\<forall>test \<in> set tests. cands W t 0 test \<noteq> []"
    by (auto simp: case_runs_def split: sum.splits)
  from assms(2) k t have "\<forall>test \<in> set tests. cands W t 0 test = []" by simp
  with ne have "tests = []" by (cases tests) auto
  then show ?thesis by (simp add: k t case_labels_def case_parses_def)
qed

lemma parse_loop_total: "None \<notin> set cs \<Longrightarrow> \<exists>s'. parse_loop W target s cs = Inr s'"
  by (induction W target s cs rule: parse_loop.induct) simp_all

lemma yielded_nonempty: "None \<notin> set cs \<Longrightarrow> cs \<noteq> [] \<Longrightarrow> yielded cs \<noteq> []"
proof (cases cs)
  case Nil
  assume "cs \<noteq> []"
  with Nil show ?thesis by simp
next
  case (Cons a rest)
  assume "None \<notin> set cs"
  with Cons obtain p where "a = Some p" by (cases a) auto
  with Cons show ?thesis by simp
qed

lemma max_by_key_total: "xs \<noteq> [] \<Longrightarrow> \<exists>b. max_by_key key xs = Inr b"
  by (cases xs) simp_all

lemma test_loop_total:
  "\<forall>test \<in> set tests. None \<notin> set (cands W t msd test) \<and> cands W t msd test \<noteq> [] \<Longrightarrow>
     \<exists>l s'. test_loop W target t msd n s tests = (l, Inr s')"
proof (induction tests arbitrary: s)
  case Nil
  then show ?case by simp
next
  case (Cons test rest)
  let ?s1 = "s\<lparr>one_prod_passes := False, first_prod := True, y_score := []\<rparr>"
  from Cons.prems have nn: "None \<notin> set (cands W t msd test)" and ne: "cands W t msd test \<noteq> []"
    by auto
  from parse_loop_total[OF nn] obtain s2 where
    pl: "parse_loop W target ?s1 (cands W t msd test) = Inr s2" by blast
  from parse_loop_Inr[OF pl] yielded_nonempty[OF nn ne] have "y_score s2 \<noteq> []" by simp
  from max_by_key_total[OF this] obtain best where mx: "max_by_key fst (y_score s2) = Inr best"
    by blast
  let ?s3 = "s2\<lparr>pos_best_scored := pos_best_scored s2 + of_bool (snd best),
                total_tests := total_tests s2 + int n,
                all_tests_pass := (all_tests_pass s2 \<and> one_prod_passes s2)\<rparr>"
  from Cons.prems have "\<exists>l s'. test_loop W target t msd n ?s3 rest = (l, Inr s')"
    by (intro Cons.IH) simp
  then obtain l' s' where "test_loop W target t msd n ?s3 rest = (l', Inr s')" by blast
  with pl mx show ?case
    by (simp add: cands_def Let_def)
qed

lemma one_test_total:
  "case_runs W (target, ts_str, tests) \<Longrightarrow>
     \<exists>l v. run_corpus_one_test W target ts_str tests 0 = (l, Inr v)"
proof -
  assume a: "case_runs W (target, ts_str, tests)"
  then obtain t where t: "strptime W ts_str ''%Y-%m-%dT%H:%M'' = Inr t"
    and c: "\<forall>test \<in> set tests. None \<notin> set (cands W t 0 test) \<and> cands W t 0 test \<noteq> []"
    by (auto simp: case_runs_def split: sum.splits)
  from test_loop_total[OF c] obtain l s' where
    "test_loop W target t 0 (length tests) one_test_init tests = (l, Inr s')" by blast
  with t show ?thesis by (simp add: run_corpus_one_test_def)
qed

lemma corpus_loop_total:
  "\<forall>k \<in> set corpus. case_runs W k \<Longrightarrow> \<exists>l c'. corpus_loop W c corpus = (l, Inr c')"
proof (induction corpus arbitrary: c)
  case Nil
  then show ?case by simp
next
  case (Cons k rest)
  obtain target ts_str tests where k: "k = (target, ts_str, tests)"
    by (cases k) auto
  from Cons.prems k have "case_runs W (target, ts_str, tests)" by simp
  from one_test_total[OF this] obtain l1 v where
    one: "run_corpus_one_test W target ts_str tests 0 = (l1, Inr v)" by blast
  obtain X Y tt pos neg pf pb failed where v: "v = (X, Y, tt, pos, neg, pf, pb, failed)"
    by (cases v) auto
  let ?c1 = "c\<lparr>Xs := Xs c @ X, ys := ys c @ Y,
                 total_tests := total_tests c + tt,
                 pos_parses := pos_parses c + pos,
                 neg_parses := neg_parses c + neg,
                 pos_first_parses := pos_first_parses c + pf,
                 pos_best_scored := pos_best_scored c + pb,
                 at_least_one_failed := (at_least_one_failed c \<or> failed)\<rparr>"
  from Cons.prems have "\<exists>l c'. corpus_loop W ?c1 rest = (l, Inr c')"
    by (intro Cons.IH) simp
  then obtain l2 c' where "corpus_loop W ?c1 rest = (l2, Inr c')" by blast
  with one v show ?case by (simp add: k)
qed

lemma case_labels_nonempty:
  assumes "case_runs W k" and "snd (snd k) \<noteq> []"
  shows "case_labels W k \<noteq> []"
proof -
  obtain target ts_str tests where k: "k = (target, ts_str, tests)"
    by (cases k) auto
  from assms(1) k obtain t where t: "strptime W ts_str ''%Y-%m-%dT%H:%M'' = Inr t"
    and c: "\<forall>test \<in> set tests. None \<notin> set (cands W t 0 test) \<and> cands W t 0 test \<noteq> []"
    by (auto simp: case_runs_def split: sum.splits)
  from assms(2) k obtain test rest where ts: "tests = test # rest"
    by (cases tests) auto
  with c have "yielded (cands W t 0 test) \<noteq> []"
    by (intro yielded_nonempty) auto
  then show ?thesis
    by (simp add: k t ts case_labels_def case_parses_def)
qed

lemma sum_list_pos:
  "k \<in> set xs \<Longrightarrow> 0 < f k \<Longrightarrow> \<forall>x \<in> set xs. 0 \<le> f x \<Longrightarrow> 0 < (\<Sum>x\<leftarrow>xs. (f x :: int))"
proof (induction xs)
  case Nil
  then show ?case by simp
next
  case (Cons a xs)
  have nn: "0 \<le> (\<Sum>x\<leftarrow>xs. f x)"
    using Cons.prems by (intro sum_list_nonneg) auto
  show ?case
  proof (cases "k = a")
    case True
    with Cons.prems nn show ?thesis by simp
  next
    case False
    with Cons.prems have "k \<in> set xs" by simp
    from Cons.IH[OF this] Cons.prems have "0 < (\<Sum>x\<leftarrow>xs. f x)" by simp
    moreover from Cons.prems have "0 \<le> f a" by simp
    ultimately show ?thesis by simp
  qed
qed

text \<open>
  When every reference time parses, every sentence yields at least one candidate and none
  of them is \<open>None\<close>, and the corpus has at least one sentence, \<open>run_corpus\<close> returns the
  data set if every sentence has a correct candidate, and raises the one exception
  \<open>ctparse corpus has errors\<close> otherwise.
\<close>

lemma run_corpus_coverage:
  assumes runs: "\<forall>k \<in> set corpus. case_runs W k"
    and some: "\<exists>k \<in> set corpus. snd (snd k) \<noteq> []"
  shows "snd (run_corpus W corpus) =
           (if \<forall>k \<in> set corpus. case_passes W k
            then Inr (concat (map (\<lambda>k. concat (map (feats W) (case_parses W k))) corpus),
                      concat (map (\<lambda>k. concat (map (\<lambda>p. replicate (length (production p)) (label W (fst k) p))
                                                 (case_parses W k))) corpus))
            else Inl (Exception ''ctparse corpus has errors''))"
proof -
  from corpus_loop_total[OF runs] obtain l c where
    cl: "corpus_loop W corpus_init corpus = (l, Inr c)" by blast
  note f = corpus_loop_Inr[OF cl]
  from some obtain k where k: "k \<in> set corpus" "snd (snd k) \<noteq> []" by blast
  with runs have "case_labels W k \<noteq> []"
    by (intro case_labels_nonempty) auto
  with k have "concat (map (case_labels W) corpus) \<noteq> []" by auto
  moreover have "pos_parses c + neg_parses c =
            int (length (filter (\<lambda>b. b) (concat (map (case_labels W) corpus)))
                 + length (filter Not (concat (map (case_labels W) corpus))))"
    using f by (simp add: corpus_init_def)
  then have "pos_parses c + neg_parses c = int (length (concat (map (case_labels W) corpus)))"
    by (simp only: length_filter_both)
  ultimately have pn: "pos_parses c + neg_parses c \<noteq> 0"
    by simp
  from k have "0 < (\<Sum>k\<leftarrow>corpus. int (length (snd (snd k))) * int (length (snd (snd k))))"
    by (intro sum_list_pos) auto
  with f have tt: "total_tests c \<noteq> 0"
    by (simp add: corpus_init_def)
  from f have "Xs c = concat (map (\<lambda>k. concat (map (feats W) (case_parses W k))) corpus)"
    and "ys c = concat (map (\<lambda>k. concat (map (\<lambda>p. replicate (length (production p)) (label W (fst k) p))
                                                 (case_parses W k))) corpus)"
    and "at_least_one_failed c = (\<exists>k \<in> set corpus. \<not> case_passes W k)"
    by (simp_all add: corpus_init_def)
  with cl pn tt show ?thesis
    by (simp add: run_corpus_def truediv_def Let_def)
qed

text \<open>
  The number of tests that the summary line of \<open>run_corpus\<close> reports is the sum, over the
  test cases, of the square of the number of their sentences.
\<close>

lemma run_corpus_total_tests:
  assumes "run_corpus W corpus = (msgs, res)"
    and "InfoRun tt n p ng sm \<in> set msgs"
  shows "tt = (\<Sum>k\<leftarrow>corpus. int (length (snd (snd k))) * int (length (snd (snd k))))"
proof -
  obtain l rr where cl: "corpus_loop W corpus_init corpus = (l, rr)"
    by (cases "corpus_loop W corpus_init corpus") auto
  have "\<forall>m \<in> set l. is_warning m"
    using corpus_loop_log[OF cl] .
  then have nl: "InfoRun tt n p ng sm \<notin> set l" by auto
  show ?thesis
  proof (cases rr)
    case (Inl e)
    with assms cl nl show ?thesis by (simp add: run_corpus_def)
  next
    case (Inr c)
    note f = corpus_loop_Inr[OF cl[unfolded Inr]]
    from assms cl Inr nl have "tt = total_tests c"
      by (auto simp: run_corpus_def truediv_def Let_def split: if_splits sum.splits)
    with f show ?thesis by (simp add: corpus_init_def)
  qed
qed

section \<open>Properties of \<open>_run_corpus_one_test\<close> and \<open>run_corpus\<close>\<close>

text \<open>
  C6. When \<open>_run_corpus_one_test\<close> returns, every label it used is the comparison of the
  candidate's canonical text \<open>nb_str\<close> with the target string: the labels of the rows, one
  per production prefix of each candidate, the count of correct and of wrong candidates,
  the count of sentences whose first candidate is correct, the count of sentences whose
  highest-scored candidate is correct, and the failure flag, set when some sentence has no
  candidate whose canonical text is the target.
\<close>

theorem run_corpus_one_test_labels:
  assumes "run_corpus_one_test W target ts_str tests msd = (l, Inr (X, Y, tt, pos, neg, pf, pb, failed))"
    and "strptime W ts_str ''%Y-%m-%dT%H:%M'' = Inr t"
  shows "Y = concat (map (\<lambda>p. replicate (length (production p)) (nb_str W (resolution p) = target))
                      (all_parses W t msd tests))
     \<and> X = concat (map (feats W) (all_parses W t msd tests))
     \<and> pos = int (length (filter (\<lambda>p. nb_str W (resolution p) = target) (all_parses W t msd tests)))
     \<and> neg = int (length (filter (\<lambda>p. nb_str W (resolution p) \<noteq> target) (all_parses W t msd tests)))
     \<and> pf = int (length (filter (\<lambda>test. case yielded (cands W t msd test) of [] \<Rightarrow> False
                                          | p # ps \<Rightarrow> nb_str W (resolution p) = target) tests))
     \<and> pb = int (length (filter (\<lambda>test.
                case max_by_key fst (map (\<lambda>p. (score p, nb_str W (resolution p) = target))
                                       (yielded (cands W t msd test))) of
                  Inl e \<Rightarrow> False | Inr best \<Rightarrow> snd best) tests))
     \<and> failed = (\<exists>test \<in> set tests. \<forall>p \<in> set (yielded (cands W t msd test)).
                    nb_str W (resolution p) \<noteq> target)"
  using one_test_fields[OF assms]
  by (simp add: label_def[abs_def] first_label_def[abs_def] best_label_def[abs_def] passes_def)

theorem run_corpus_one_test_labels_witness:
  "run_corpus_one_test world_three_rows ''Time(2023-01-02T15:00:00)'' ''2023-01-01T00:00''
      [''tomorrow at 3pm''] 0
     = ([], Inr ([[''r1''], [''r1'', ''r2''], [''r3'']], [True, True, False], 1, 1, 1, 1, 1, False))
   \<and> strptime world_three_rows ''2023-01-01T00:00'' ''%Y-%m-%dT%H:%M'' = Inr ''2023-01-01T00:00''
   \<and> [True, True, False] =
        concat (map (\<lambda>p. replicate (length (production p))
                       (nb_str world_three_rows (resolution p) = ''Time(2023-01-02T15:00:00)''))
          (all_parses world_three_rows ''2023-01-01T00:00'' 0 [''tomorrow at 3pm'']))
   \<and> (1 :: int) =
        int (length (filter (\<lambda>p. nb_str world_three_rows (resolution p) = ''Time(2023-01-02T15:00:00)'')
          (all_parses world_three_rows ''2023-01-01T00:00'' 0 [''tomorrow at 3pm''])))"
proof -
  have run: "run_corpus_one_test world_three_rows ''Time(2023-01-02T15:00:00)'' ''2023-01-01T00:00''
      [''tomorrow at 3pm''] 0
     = ([], Inr ([[''r1''], [''r1'', ''r2''], [''r3'']], [True, True, False], 1, 1, 1, 1, 1, False))"
    by code_simp
  have tm: "strptime world_three_rows ''2023-01-01T00:00'' ''%Y-%m-%dT%H:%M'' = Inr ''2023-01-01T00:00''"
    by (simp add: world_three_rows_def table_world_def)
  from run_corpus_one_test_labels[OF run tm] run tm show ?thesis
    by (intro conjI) blast+
qed

text \<open>
  The second share that \<open>run_corpus\<close> reports is the number of sentences whose first
  candidate is correct divided by the number of all candidates, correct and wrong ones
  together: line 276 has the denominator of the first share.
\<close>

lemma run_corpus_share_denominator:
  assumes "run_corpus W corpus = (msgs, res)"
    and "InfoShareFirst r \<in> set msgs"
  shows "r = of_int (int (length (corpus_firsts W corpus)))
             / of_int (int (length (corpus_labels W corpus)))"
proof -
  obtain l rr where cl: "corpus_loop W corpus_init corpus = (l, rr)"
    by (cases "corpus_loop W corpus_init corpus") auto
  have w: "\<forall>m \<in> set l. is_warning m"
    using corpus_loop_log[OF cl] .
  then have nl: "InfoShareFirst r \<notin> set l" by auto
  show ?thesis
  proof (cases rr)
    case (Inl e)
    with assms cl nl show ?thesis by (simp add: run_corpus_def)
  next
    case (Inr c)
    note f = corpus_loop_Inr[OF cl[unfolded Inr]]
    have pf: "pos_first_parses c = int (length (corpus_firsts W corpus))"
      using f by (simp add: corpus_init_def corpus_firsts_def)
    have "pos_parses c + neg_parses c =
            int (length (filter (\<lambda>b. b) (corpus_labels W corpus))
                 + length (filter Not (corpus_labels W corpus)))"
      using f by (simp add: corpus_init_def corpus_labels_def)
    then have pn: "pos_parses c + neg_parses c = int (length (corpus_labels W corpus))"
      by (simp only: length_filter_both)
    from assms cl Inr nl have "r = of_int (pos_first_parses c) / of_int (pos_parses c + neg_parses c)"
      by (auto simp: run_corpus_def truediv_def Let_def split: if_splits sum.splits)
    then show ?thesis by (simp only: pf pn)
  qed
qed

text \<open>
  C5. One sentence, a correct candidate yielded first and a wrong one after it. The one
  correct candidate is the first of its sentence, so the share of the correct candidates
  that were yielded first is 1; the code divides the count by all candidates and reports
  one half under \<open>share of correct parses being produced first\<close>.
\<close>

theorem run_corpus_share_first_two_candidates:
  "fst (run_corpus world_two_candidates corpus_tomorrow)
     = [InfoRun 1 1 1 1 2, InfoShareCorrect (1 / 2), InfoShareFirst (1 / 2), InfoShareBest 1]
   \<and> rat_of_int (int (length (corpus_firsts world_two_candidates corpus_tomorrow)))
       / rat_of_int (int (count_list (corpus_labels world_two_candidates corpus_tomorrow) True))
     = 1
   \<and> (1 / 2 :: rat) \<noteq> 1"
  by code_simp

text \<open>
  C10, as the code has it. A run over a corpus without any sentence, the empty corpus
  among them, whose reference times parse, writes its summary line with every count 0 and
  raises \<open>ZeroDivisionError\<close> at the first share. And no run in which the generator yields
  no candidate for any sentence returns a data set.
\<close>

theorem run_corpus_no_candidates:
  "((\<forall>k \<in> set corpus. snd (snd k) = [] \<and> (\<exists>t. strptime W (fst (snd k)) ''%Y-%m-%dT%H:%M'' = Inr t))
      \<longrightarrow> run_corpus W corpus = ([InfoRun 0 (length corpus) 0 0 0], Inl ZeroDivisionError))
   \<and> ((\<forall>k \<in> set corpus. \<forall>t. strptime W (fst (snd k)) ''%Y-%m-%dT%H:%M'' = Inr t \<longrightarrow>
           (\<forall>test \<in> set (snd (snd k)). cands W t 0 test = []))
      \<longrightarrow> (\<forall>d. snd (run_corpus W corpus) \<noteq> Inr d))"
proof (intro conjI impI allI)
  assume "\<forall>k \<in> set corpus. snd (snd k) = [] \<and> (\<exists>t. strptime W (fst (snd k)) ''%Y-%m-%dT%H:%M'' = Inr t)"
  from corpus_loop_no_tests[OF this, of corpus_init]
  show "run_corpus W corpus = ([InfoRun 0 (length corpus) 0 0 0], Inl ZeroDivisionError)"
    by (simp add: run_corpus_def corpus_init_def truediv_def)
next
  fix d
  assume h: "\<forall>k \<in> set corpus. \<forall>t. strptime W (fst (snd k)) ''%Y-%m-%dT%H:%M'' = Inr t \<longrightarrow>
           (\<forall>test \<in> set (snd (snd k)). cands W t 0 test = [])"
  show "snd (run_corpus W corpus) \<noteq> Inr d"
  proof
    assume r: "snd (run_corpus W corpus) = Inr d"
    obtain l rr where cl: "corpus_loop W corpus_init corpus = (l, rr)"
      by (cases "corpus_loop W corpus_init corpus") auto
    from r cl obtain c where c: "rr = Inr c"
      by (cases rr) (simp_all add: run_corpus_def)
    note f = corpus_loop_Inr[OF cl[unfolded c]]
    have "\<forall>k \<in> set corpus. case_labels W k = []"
      using f h case_runs_no_cands by blast
    then have "concat (map (case_labels W) corpus) = []" by simp
    with f have "pos_parses c + neg_parses c = 0" by (simp add: corpus_init_def)
    with r cl c show False
      by (simp add: run_corpus_def truediv_def)
  qed
qed

theorem run_corpus_no_candidates_witness:
  "run_corpus world_silent corpus_no_sentence = ([InfoRun 0 1 0 0 0], Inl ZeroDivisionError)
   \<and> run_corpus world_silent [] = ([InfoRun 0 0 0 0 0], Inl ZeroDivisionError)
   \<and> isl (snd (run_corpus world_silent corpus_two_days))"
proof -
  have h1: "\<forall>k \<in> set corpus_no_sentence.
       snd (snd k) = [] \<and> (\<exists>t. strptime world_silent (fst (snd k)) ''%Y-%m-%dT%H:%M'' = Inr t)"
    by (simp add: world_silent_def table_world_def corpus_no_sentence_def)
  have h2: "\<forall>k \<in> set [].
       snd (snd k) = [] \<and> (\<exists>t. strptime world_silent (fst (snd k)) ''%Y-%m-%dT%H:%M'' = Inr t)"
    by simp
  have h3: "\<forall>k \<in> set corpus_two_days.
        \<forall>t. strptime world_silent (fst (snd k)) ''%Y-%m-%dT%H:%M'' = Inr t \<longrightarrow>
           (\<forall>test \<in> set (snd (snd k)). cands world_silent t 0 test = [])"
    by (simp add: world_silent_def table_world_def cands_def corpus_two_days_def)
  have "\<forall>d. snd (run_corpus world_silent corpus_two_days) \<noteq> Inr d"
    using run_corpus_no_candidates [of corpus_two_days world_silent] h3 by blast
  then have "isl (snd (run_corpus world_silent corpus_two_days))"
    by (cases "snd (run_corpus world_silent corpus_two_days)") auto
  moreover have "run_corpus world_silent corpus_no_sentence = ([InfoRun 0 1 0 0 0], Inl ZeroDivisionError)"
    using run_corpus_no_candidates [of corpus_no_sentence world_silent] h1
    by (simp add: corpus_no_sentence_def)
  moreover have "run_corpus world_silent [] = ([InfoRun 0 0 0 0 0], Inl ZeroDivisionError)"
    using run_corpus_no_candidates [of "[]" world_silent] h2 by simp
  ultimately show ?thesis by simp
qed

text \<open>
  The run without any candidate that does not end in a division by zero: its one sentence
  yields nothing, and the run raises the \<open>ValueError\<close> of \<open>max\<close> on an empty sequence while
  it is still in the test case, before any share is computed.
\<close>

theorem run_corpus_no_candidates_counterexample:
  "all_parses world_silent ''2023-01-01T00:00'' 0 [''in two days''] = []
   \<and> run_corpus world_silent corpus_two_days
     = ([WarnNeverProduced ''Time(2023-01-03T00:00:00)'' ''in two days''],
        Inl (ValueError ''max() arg is an empty sequence''))
   \<and> ValueError ''max() arg is an empty sequence'' \<noteq> ZeroDivisionError"
  by code_simp

text \<open>
  C3. The scenario of the claim: one test case, one sentence, no candidate. The code logs
  the warning for the sentence and then raises, from \<open>max\<close> on the empty list of scores,
  a \<open>ValueError\<close>; it does not reach the end of the run, where the coverage error
  \<open>ctparse corpus has errors\<close> would be raised.
\<close>

theorem run_corpus_sentence_without_candidate:
  "run_corpus world_silent corpus_tomorrow
   = ([WarnNeverProduced ''Time(2023-01-02T15:00:00)'' ''tomorrow at 3pm''],
      Inl (ValueError ''max() arg is an empty sequence''))"
  by code_simp

text \<open>
  C2. A corpus of two test cases; the sentence of the first yields no candidate, the
  sentence of the second yields one wrong candidate. The code stops in the first test case
  with the \<open>ValueError\<close> of \<open>max\<close>: nothing of the second test case is logged. Run alone, the
  second test case is processed to the end, with its two warnings and the summary, and
  raises the coverage error.
\<close>

theorem run_corpus_stops_at_sentence_without_candidate:
  "run_corpus world_next_week corpus_two_cases
   = ([WarnNeverProduced ''Time(2023-01-02T15:00:00)'' ''tomorrow at 3pm''],
      Inl (ValueError ''max() arg is an empty sequence''))
   \<and> run_corpus world_next_week corpus_second_case
   = ([WarnNeverProduced ''Time(2023-01-08T00:00:00)'' ''next week'',
       WarnNotAlways ''Time(2023-01-08T00:00:00)'',
       InfoRun 1 1 0 1 1, InfoShareCorrect 0, InfoShareFirst 0, InfoShareBest 0],
      Inl (Exception ''ctparse corpus has errors''))"
  by code_simp

text \<open>
  C4. One test case with two sentences, each with one correct candidate. Two sentences
  are evaluated; the summary line reports 4 tests, since \<open>len(tests)\<close> is added once per
  sentence, and the share of best-scored correct parses is one half although the
  best-scored candidate of both sentences is correct.
\<close>

theorem run_corpus_total_tests_two_sentences:
  "run_corpus world_two_sentences corpus_two_sentences
   = ([InfoRun 4 1 2 0 2, InfoShareCorrect 1, InfoShareFirst 1, InfoShareBest (1 / 2)],
      Inr ([[''r1''], [''r1'', ''r2''], [''r3'']], [True, True, True]))
   \<and> length (snd (snd (hd corpus_two_sentences))) = 2"
  by code_simp

end
